theory Spec2Isabelle
  imports Complex_Main "HOL-Library.Char_ord" "HOL-Library.List_Lexorder"
begin

section \<open>Tables\<close>

text \<open>
  A pandas DataFrame is modelled column-wise, as the code uses it: an ordered list of
  named columns, each with a storage type (its \<open>dtype\<close>) and its cells. A missing value
  (NaN, None, NaT) is the cell \<open>NA\<close>. Floating-point values are modelled by finite reals:
  rounding, infinities and signed zeros of stored values are outside the model.
\<close>

datatype storage = Int8 | Int16 | Int32 | Int64 | Float32 | Float64 | Bool | Object
  | Category | Datetime64

datatype cell = NA | IntV int | FloatV real | StrV string | BoolV bool | TimeV int

record column =
  cname :: string
  dtype :: storage
  cells :: "cell list"

type_synonym table = "column list"

datatype error = ZeroDivisionError | KeyError

text \<open>\<open>df.columns\<close>, \<open>len(df)\<close>, \<open>df[col]\<close> and \<open>df[col] = s\<close>. Assigning to an
  existing name replaces that column in place; assigning to a new name appends it.\<close>

definition columns :: "table \<Rightarrow> string list" where
  "columns df = map cname df"

definition nrows :: "table \<Rightarrow> nat" where
  "nrows df = (case df of [] \<Rightarrow> 0 | c # _ \<Rightarrow> length (cells c))"

fun getitem :: "table \<Rightarrow> string \<Rightarrow> column option" where
  "getitem [] col = None"
| "getitem (c # cs) col = (if cname c = col then Some c else getitem cs col)"

fun setitem :: "table \<Rightarrow> string \<Rightarrow> column \<Rightarrow> table" where
  "setitem [] col s = [s\<lparr>cname := col\<rparr>]"
| "setitem (c # cs) col s =
     (if cname c = col then s\<lparr>cname := col\<rparr> # cs else c # setitem cs col s)"

text \<open>The data model's invariant: column names are distinct, all columns have the same
  number of rows, and the cells of a column fit its storage type (integer and boolean
  storage cannot hold a missing value; text storage holds strings).\<close>

fun cell_ok :: "storage \<Rightarrow> cell \<Rightarrow> bool" where
  "cell_ok Float32 c = (case c of NA \<Rightarrow> True | FloatV _ \<Rightarrow> True | _ \<Rightarrow> False)"
| "cell_ok Float64 c = (case c of NA \<Rightarrow> True | FloatV _ \<Rightarrow> True | _ \<Rightarrow> False)"
| "cell_ok Bool c = (case c of BoolV _ \<Rightarrow> True | _ \<Rightarrow> False)"
| "cell_ok Object c = (case c of NA \<Rightarrow> True | StrV _ \<Rightarrow> True | _ \<Rightarrow> False)"
| "cell_ok Category c = (case c of NA \<Rightarrow> True | StrV _ \<Rightarrow> True | _ \<Rightarrow> False)"
| "cell_ok Datetime64 c = (case c of NA \<Rightarrow> True | TimeV _ \<Rightarrow> True | _ \<Rightarrow> False)"
| "cell_ok _ c = (case c of IntV _ \<Rightarrow> True | _ \<Rightarrow> False)"

definition wf_table :: "table \<Rightarrow> bool" where
  "wf_table df \<longleftrightarrow>
     distinct (columns df) \<and>
     list_all (\<lambda>c. length (cells c) = nrows df) df \<and>
     list_all (\<lambda>c. list_all (cell_ok (dtype c)) (cells c)) df"

section \<open>Column operations of the library\<close>

text \<open>\<open>pd.api.types.is_numeric_dtype\<close>: integers, floats and booleans.\<close>

definition is_numeric_dtype :: "storage \<Rightarrow> bool" where
  "is_numeric_dtype d \<longleftrightarrow> d \<in> {Int8, Int16, Int32, Int64, Float32, Float64, Bool}"

definition isnull_sum :: "column \<Rightarrow> nat" where
  "isnull_sum s = length (filter (\<lambda>x. x = NA) (cells s))"

fun num_of :: "cell \<Rightarrow> real option" where
  "num_of (IntV i) = Some (of_int i)"
| "num_of (FloatV r) = Some r"
| "num_of (BoolV b) = Some (if b then 1 else 0)"
| "num_of _ = None"

text \<open>\<open>Series.dropna()\<close> of a numeric column, as numbers.\<close>

definition dropna :: "column \<Rightarrow> real list" where
  "dropna s = List.map_filter num_of (cells s)"

text \<open>\<open>Series.median()\<close> skips missing values; of no value at all it is NaN.\<close>

definition median_of :: "real list \<Rightarrow> real option" where
  "median_of xs =
     (let ys = sort xs; n = length ys in
      if n = 0 then None
      else if odd n then Some (ys ! (n div 2))
      else Some ((ys ! (n div 2 - 1) + ys ! (n div 2)) / 2))"

definition median :: "column \<Rightarrow> cell" where
  "median s = (case median_of (dropna s) of None \<Rightarrow> NA | Some m \<Rightarrow> FloatV m)"

text \<open>\<open>Series.mode()\<close>: the most frequent non-missing values, sorted ascending (strings
  in lexicographic order); empty when every value is missing.\<close>

fun cell_less :: "cell \<Rightarrow> cell \<Rightarrow> bool" where
  "cell_less (StrV a) (StrV b) = (a < b)"
| "cell_less _ _ = False"

definition non_null :: "cell list \<Rightarrow> cell list" where
  "non_null xs = filter (\<lambda>x. x \<noteq> NA) xs"

definition max_count :: "cell list \<Rightarrow> nat" where
  "max_count xs = fold (\<lambda>v m. max (count_list xs v) m) xs 0"

fun insert_cell :: "cell \<Rightarrow> cell list \<Rightarrow> cell list" where
  "insert_cell v [] = [v]"
| "insert_cell v (w # ws) = (if cell_less w v then w # insert_cell v ws else v # w # ws)"

definition mode :: "column \<Rightarrow> cell list" where
  "mode s =
     (let xs = non_null (cells s); m = max_count xs in
      foldr insert_cell (filter (\<lambda>v. count_list xs v = m) (remdups xs)) [])"

definition fillna :: "column \<Rightarrow> cell \<Rightarrow> column" where
  "fillna s v = s\<lparr>cells := map (\<lambda>x. if x = NA then v else x) (cells s)\<rparr>"

definition nunique :: "column \<Rightarrow> nat" where
  "nunique s = length (remdups (non_null (cells s)))"

text \<open>\<open>Series.min()\<close> and \<open>Series.max()\<close> of an integer column; NaN (here \<open>None\<close>) when
  the column has no row, and a comparison with NaN is false.\<close>

definition int_vals :: "column \<Rightarrow> int list" where
  "int_vals s = List.map_filter (\<lambda>x. case x of IntV i \<Rightarrow> Some i | _ \<Rightarrow> None) (cells s)"

definition col_min :: "column \<Rightarrow> int option" where
  "col_min s = (case int_vals s of [] \<Rightarrow> None | v # vs \<Rightarrow> Some (fold min vs v))"

definition col_max :: "column \<Rightarrow> int option" where
  "col_max s = (case int_vals s of [] \<Rightarrow> None | v # vs \<Rightarrow> Some (fold max vs v))"

definition gt :: "int option \<Rightarrow> int \<Rightarrow> bool" where
  "gt a b = (case a of None \<Rightarrow> False | Some x \<Rightarrow> x > b)"

definition lt :: "int option \<Rightarrow> int \<Rightarrow> bool" where
  "lt a b = (case a of None \<Rightarrow> False | Some x \<Rightarrow> x < b)"

text \<open>\<open>np.iinfo(np.intW).min\<close> and \<open>.max\<close>, and the cast \<open>astype\<close>: a cast to a signed
  width wraps an integer around; the other casts keep the cells.\<close>

definition iinfo_min :: "nat \<Rightarrow> int" where
  "iinfo_min w = - (2 ^ (w - 1))"

definition iinfo_max :: "nat \<Rightarrow> int" where
  "iinfo_max w = 2 ^ (w - 1) - 1"

definition wrap :: "nat \<Rightarrow> int \<Rightarrow> int" where
  "wrap w i = (i + 2 ^ (w - 1)) mod 2 ^ w - 2 ^ (w - 1)"

fun cast_cell :: "storage \<Rightarrow> cell \<Rightarrow> cell" where
  "cast_cell Int8 (IntV i) = IntV (wrap 8 i)"
| "cast_cell Int16 (IntV i) = IntV (wrap 16 i)"
| "cast_cell Int32 (IntV i) = IntV (wrap 32 i)"
| "cast_cell _ c = c"

definition astype :: "column \<Rightarrow> storage \<Rightarrow> column" where
  "astype s d = s\<lparr>dtype := d, cells := map (cast_cell d) (cells s)\<rparr>"

text \<open>\<open>df.duplicated()\<close> marks a row that equals an earlier row in every column, and
  \<open>df.drop_duplicates()\<close> keeps the unmarked rows.\<close>

definition row :: "table \<Rightarrow> nat \<Rightarrow> cell list" where
  "row df i = map (\<lambda>c. cells c ! i) df"

definition duplicated :: "table \<Rightarrow> bool list" where
  "duplicated df = map (\<lambda>i. list_ex (\<lambda>j. row df j = row df i) [0..<i]) [0..<nrows df]"

definition keep_rows :: "bool list \<Rightarrow> 'a list \<Rightarrow> 'a list" where
  "keep_rows marks xs = map snd (filter (\<lambda>(d, x). \<not> d) (zip marks xs))"

definition drop_duplicates :: "table \<Rightarrow> table" where
  "drop_duplicates df = map (\<lambda>c. c\<lparr>cells := keep_rows (duplicated df) (cells c)\<rparr>) df"

section \<open>Floating-point results\<close>

text \<open>Statistics computed in floating point can be infinite or not a number; a division
  by zero does not raise there. Rounding to \<open>n\<close> decimals rounds half to even.\<close>

datatype fval = Fin real | PInf | NInf | NaN

fun fdiv :: "fval \<Rightarrow> fval \<Rightarrow> fval" where
  "fdiv (Fin a) (Fin b) =
     (if b = 0 then (if a = 0 then NaN else if a > 0 then PInf else NInf) else Fin (a / b))"
| "fdiv NaN _ = NaN"
| "fdiv _ NaN = NaN"
| "fdiv (Fin a) _ = Fin 0"
| "fdiv PInf (Fin b) = (if b \<ge> 0 then PInf else NInf)"
| "fdiv NInf (Fin b) = (if b \<ge> 0 then NInf else PInf)"
| "fdiv PInf _ = NaN"
| "fdiv NInf _ = NaN"

fun fmul :: "fval \<Rightarrow> real \<Rightarrow> fval" where
  "fmul (Fin a) k = Fin (a * k)"
| "fmul PInf k = (if k > 0 then PInf else if k < 0 then NInf else NaN)"
| "fmul NInf k = (if k > 0 then NInf else if k < 0 then PInf else NaN)"
| "fmul NaN k = NaN"

definition rint :: "real \<Rightarrow> int" where
  "rint y =
     (let f = \<lfloor>y\<rfloor>; d = y - of_int f in
      if d < 1 / 2 then f else if d > 1 / 2 then f + 1 else if even f then f else f + 1)"

definition round_nd :: "real \<Rightarrow> nat \<Rightarrow> real" where
  "round_nd x n = of_int (rint (x * 10 ^ n)) / 10 ^ n"

fun fround :: "fval \<Rightarrow> nat \<Rightarrow> fval" where
  "fround (Fin a) n = Fin (round_nd a n)"
| "fround v n = v"

fun fabs :: "fval \<Rightarrow> fval" where
  "fabs (Fin a) = Fin \<bar>a\<bar>"
| "fabs NInf = PInf"
| "fabs v = v"

fun fgt :: "fval \<Rightarrow> real \<Rightarrow> bool" where
  "fgt (Fin a) k = (a > k)"
| "fgt PInf k = True"
| "fgt _ k = False"

section \<open>The cleaner (data_cleaner.py)\<close>

record quality_report =
  total_rows :: nat
  total_columns :: nat
  missing_values :: "(string \<times> nat \<times> real) list"
  duplicates :: nat
  memory_usage :: int

record column_types =
  numeric :: "string list"
  categorical :: "string list"
  datetime :: "string list"
  text_cols :: "string list"

record optimization_report =
  memory_before :: int
  memory_after :: int
  memory_saved :: int
  saved_percentage :: fval

record cleaning_report =
  quality :: quality_report
  duplicates_removed :: int
  optimization :: optimization_report
  column_types :: column_types
  final_shape :: "nat \<times> nat"

text \<open>\<open>analyze_data_quality\<close>. The memory footprint \<open>df.memory_usage(deep=True).sum()\<close>
  is a parameter \<open>mem\<close> of the model.\<close>

definition quality_step :: "table \<Rightarrow> string \<Rightarrow> (string \<times> nat \<times> real) list
    \<Rightarrow> (string \<times> nat \<times> real) list" where
  "quality_step df col acc =
     (case getitem df col of None \<Rightarrow> acc
      | Some s \<Rightarrow>
          let null_count = isnull_sum s in
          if null_count > 0
          then acc @ [(col, null_count, round_nd (real null_count / real (nrows df) * 100) 2)]
          else acc)"

definition analyze_data_quality :: "(table \<Rightarrow> int) \<Rightarrow> table \<Rightarrow> quality_report" where
  "analyze_data_quality mem df =
     \<lparr>total_rows = nrows df,
      total_columns = length (columns df),
      missing_values = fold (quality_step df) (columns df) [],
      duplicates = length (filter id (duplicated df)),
      memory_usage = mem df\<rparr>"

text \<open>\<open>detect_column_types\<close>. \<open>pd.to_datetime(df[col], errors='raise')\<close> raises when a
  value does not parse; which values parse is a parameter \<open>parses\<close> of the model, and a
  column with no value has none that fails. The loop appends the column name to one of
  the four lists; the division by \<open>len(df)\<close> raises when the table has no row.\<close>

definition to_datetime_ok :: "(cell \<Rightarrow> bool) \<Rightarrow> column \<Rightarrow> bool" where
  "to_datetime_ok parses s = list_all parses (cells s)"

definition detect_step :: "(cell \<Rightarrow> bool) \<Rightarrow> table \<Rightarrow> string \<Rightarrow> column_types
    \<Rightarrow> error + column_types" where
  "detect_step parses df col ct =
     (case getitem df col of None \<Rightarrow> Inl KeyError
      | Some s \<Rightarrow>
          if dtype s = Object \<and> to_datetime_ok parses s
          then Inr (ct\<lparr>datetime := datetime ct @ [col]\<rparr>)
          else if is_numeric_dtype (dtype s)
          then Inr (ct\<lparr>numeric := numeric ct @ [col]\<rparr>)
          else if dtype s = Object
          then (if nrows df = 0 then Inl ZeroDivisionError
                else let unique_ratio = real (nunique s) / real (nrows df) in
                     if unique_ratio < 0.05 \<or> nunique s < 20
                     then Inr (ct\<lparr>categorical := categorical ct @ [col]\<rparr>)
                     else Inr (ct\<lparr>text_cols := text_cols ct @ [col]\<rparr>))
          else Inr ct)"

fun detect_loop :: "(cell \<Rightarrow> bool) \<Rightarrow> table \<Rightarrow> string list \<Rightarrow> column_types
    \<Rightarrow> error + column_types" where
  "detect_loop parses df [] ct = Inr ct"
| "detect_loop parses df (col # cols) ct =
     (case detect_step parses df col ct of
        Inl e \<Rightarrow> Inl e
      | Inr ct' \<Rightarrow> detect_loop parses df cols ct')"

definition detect_column_types :: "(cell \<Rightarrow> bool) \<Rightarrow> table \<Rightarrow> error + column_types" where
  "detect_column_types parses df =
     detect_loop parses df (columns df)
       \<lparr>numeric = [], categorical = [], datetime = [], text_cols = []\<rparr>"

text \<open>\<open>handle_missing_values\<close>: the loop over the columns of the copy, filling in place.\<close>

definition handle_missing_step :: "string \<Rightarrow> table \<Rightarrow> table" where
  "handle_missing_step col df =
     (case getitem df col of None \<Rightarrow> df
      | Some s \<Rightarrow>
          if isnull_sum s > 0
          then (if is_numeric_dtype (dtype s) then setitem df col (fillna s (median s))
                else if dtype s = Object
                then (if length (mode s) > 0 then setitem df col (fillna s (mode s ! 0))
                      else setitem df col (fillna s (StrV ''Unknown'')))
                else df)
          else df)"

definition handle_missing_values :: "table \<Rightarrow> table" where
  "handle_missing_values df = fold handle_missing_step (columns df) df"

definition remove_duplicates :: "table \<Rightarrow> table" where
  "remove_duplicates df = drop_duplicates df"

text \<open>\<open>optimize_dtypes\<close>: the narrowing loop; the division by the column length raises
  when an object column has no row.\<close>

definition optimize_step :: "string \<Rightarrow> table \<Rightarrow> error + table" where
  "optimize_step col df =
     (case getitem df col of None \<Rightarrow> Inl KeyError
      | Some s \<Rightarrow>
          let col_type = dtype s in
          if col_type = Int64
          then (let c_min = col_min s; c_max = col_max s in
                if gt c_min (iinfo_min 8) \<and> lt c_max (iinfo_max 8)
                then Inr (setitem df col (astype s Int8))
                else if gt c_min (iinfo_min 16) \<and> lt c_max (iinfo_max 16)
                then Inr (setitem df col (astype s Int16))
                else if gt c_min (iinfo_min 32) \<and> lt c_max (iinfo_max 32)
                then Inr (setitem df col (astype s Int32))
                else Inr df)
          else if col_type = Float64
          then Inr (setitem df col (astype s Float32))
          else if col_type = Object
          then (let num_unique = nunique s; num_total = length (cells s) in
                if num_total = 0 then Inl ZeroDivisionError
                else if real num_unique / real num_total < 0.5
                then Inr (setitem df col (astype s Category))
                else Inr df)
          else Inr df)"

fun optimize_loop :: "string list \<Rightarrow> table \<Rightarrow> error + table" where
  "optimize_loop [] df = Inr df"
| "optimize_loop (col # cols) df =
     (case optimize_step col df of
        Inl e \<Rightarrow> Inl e
      | Inr df' \<Rightarrow> optimize_loop cols df')"

definition optimize_dtypes :: "(table \<Rightarrow> int) \<Rightarrow> table
    \<Rightarrow> error + (table \<times> optimization_report)" where
  "optimize_dtypes mem df =
     (let memory_before = mem df in
      case optimize_loop (columns df) df of
        Inl e \<Rightarrow> Inl e
      | Inr df_optimized \<Rightarrow>
          let memory_after = mem df_optimized;
              memory_saved = memory_before - memory_after
          in Inr (df_optimized,
                  \<lparr>memory_before = memory_before,
                   memory_after = memory_after,
                   memory_saved = memory_saved,
                   saved_percentage =
                     fround (fmul (fdiv (Fin (of_int memory_saved)) (Fin (of_int memory_before)))
                               100) 2\<rparr>))"

text \<open>\<open>auto_clean\<close>: profile, impute, deduplicate, narrow, classify, report.\<close>

definition auto_clean :: "(cell \<Rightarrow> bool) \<Rightarrow> (table \<Rightarrow> int) \<Rightarrow> table
    \<Rightarrow> error + (table \<times> cleaning_report)" where
  "auto_clean parses mem df =
     (let quality_report = analyze_data_quality mem df;
          df_cleaned = handle_missing_values df;
          duplicates_removed = int (nrows df_cleaned) - int (nrows (drop_duplicates df_cleaned));
          df_cleaned = remove_duplicates df_cleaned
      in case optimize_dtypes mem df_cleaned of
           Inl e \<Rightarrow> Inl e
         | Inr (df_cleaned, optimization_report) \<Rightarrow>
             (case detect_column_types parses df_cleaned of
                Inl e \<Rightarrow> Inl e
              | Inr col_types \<Rightarrow>
                  Inr (df_cleaned,
                       \<lparr>quality = quality_report,
                        duplicates_removed = duplicates_removed,
                        optimization = optimization_report,
                        column_types = col_types,
                        final_shape = (nrows df_cleaned, length (columns df_cleaned))\<rparr>)))"

section \<open>The analyzer (analyzer.py)\<close>

text \<open>The statistics of scipy and the Pearson coefficient of \<open>DataFrame.corr\<close> are
  parameters of the model: a scipy function returns a floating-point value or raises
  (\<open>None\<close>).\<close>

record stats_lib =
  stats_skew :: "real list \<Rightarrow> fval option"
  stats_kurtosis :: "real list \<Rightarrow> fval option"
  stats_shapiro :: "real list \<Rightarrow> fval option"
  stats_anderson :: "real list \<Rightarrow> (fval \<times> fval) option"
  stats_corr :: "column \<Rightarrow> column \<Rightarrow> fval"
  pd_skew :: "real list \<Rightarrow> fval"
  pd_kurt :: "real list \<Rightarrow> fval"

fun fless :: "fval \<Rightarrow> fval \<Rightarrow> bool" where
  "fless (Fin a) (Fin b) = (a < b)"
| "fless NaN _ = False"
| "fless _ NaN = False"
| "fless NInf v = (v \<noteq> NInf)"
| "fless v PInf = (v \<noteq> PInf)"
| "fless PInf (Fin b) = False"
| "fless (Fin a) NInf = False"
| "fless PInf NInf = False"

text \<open>\<open>Series.quantile(q)\<close>, with linear interpolation between the two nearest ranks.\<close>

definition quantile :: "real list \<Rightarrow> real \<Rightarrow> real" where
  "quantile xs q =
     (let ys = sort xs; n = length ys; pos = real (n - 1) * q;
          lo = nat \<lfloor>pos\<rfloor>; frac = pos - real lo
      in if lo + 1 < n then ys ! lo + (ys ! (lo + 1) - ys ! lo) * frac else ys ! lo)"

record dist_info =
  skewness :: fval
  kurtosis :: fval
  is_normal :: bool
  outliers_count :: nat
  outliers_percentage :: real
  Q1 :: real
  Q3 :: real
  IQR :: real

text \<open>\<open>distribution_analysis\<close>; the empty dictionary is \<open>None\<close>.\<close>

definition distribution_analysis :: "stats_lib \<Rightarrow> table \<Rightarrow> string
    \<Rightarrow> error + dist_info option" where
  "distribution_analysis lib df col =
     (if col \<notin> set (columns df) then Inr None
      else case getitem df col of None \<Rightarrow> Inl KeyError
      | Some s \<Rightarrow>
          if \<not> is_numeric_dtype (dtype s) then Inr None
          else
            let data = dropna s in
            if length data < 3 then Inr None
            else
              let (skew_v, kurt_v) =
                    (case (stats_skew lib data, stats_kurtosis lib data) of
                       (Some a, Some b) \<Rightarrow> (a, b)
                     | _ \<Rightarrow> (Fin 0, Fin 0));
                  normal =
                    (if length data < 5000 \<and> length data \<ge> 3
                     then (case stats_shapiro lib data of
                             None \<Rightarrow> False
                           | Some p_value \<Rightarrow> fless (Fin 0.05) p_value)
                     else if length data \<ge> 5000
                     then (case stats_anderson lib data of
                             None \<Rightarrow> False
                           | Some (statistic, critical) \<Rightarrow> fless statistic critical)
                     else False);
                  q1 = quantile data 0.25;
                  q3 = quantile data 0.75;
                  iqr = q3 - q1;
                  lower_bound = q1 - 1.5 * iqr;
                  upper_bound = q3 + 1.5 * iqr;
                  outliers = filter (\<lambda>x. x < lower_bound \<or> x > upper_bound) data;
                  pct = (if length data > 0
                         then round_nd (real (length outliers) / real (length data) * 100) 2
                         else 0)
              in Inr (Some \<lparr>skewness = fround skew_v 3,
                             kurtosis = fround kurt_v 3,
                             is_normal = normal,
                             outliers_count = length outliers,
                             outliers_percentage = pct,
                             Q1 = q1, Q3 = q3, IQR = iqr\<rparr>))"

text \<open>\<open>Series.value_counts()\<close>: the counts of the non-missing values, most frequent
  first; equally frequent values are kept in the order of their first occurrence.\<close>

definition value_counts_of :: "cell list \<Rightarrow> (cell \<times> nat) list" where
  "value_counts_of cs =
     (let xs = non_null cs in
      sort_key (\<lambda>(v, n). - int n)
        (map (\<lambda>v. (v, count_list xs v)) (rev (remdups (rev xs)))))"

record cat_info =
  unique_count :: nat
  most_common :: "cell option"
  most_common_count :: nat
  most_common_pct :: real
  value_counts :: "(cell \<times> nat) list"

definition categorical_analysis :: "table \<Rightarrow> string \<Rightarrow> error + cat_info option" where
  "categorical_analysis df col =
     (if col \<notin> set (columns df) then Inr None
      else case getitem df col of None \<Rightarrow> Inl KeyError
      | Some s \<Rightarrow>
          let vc = value_counts_of (cells s) in
          Inr (Some \<lparr>unique_count = length vc,
                     most_common = (if length vc > 0 then Some (fst (vc ! 0)) else None),
                     most_common_count = (if length vc > 0 then snd (vc ! 0) else 0),
                     most_common_pct =
                       (if length vc > 0
                        then round_nd (real (snd (vc ! 0)) / real (nrows df) * 100) 2
                        else 0),
                     value_counts = vc\<rparr>))"

text \<open>\<open>correlation_analysis\<close>: \<open>select_dtypes(include=[np.number])\<close> keeps the integer
  and floating columns; the two nested loops visit the pairs \<open>i < j\<close>.\<close>

definition is_np_number :: "storage \<Rightarrow> bool" where
  "is_np_number d \<longleftrightarrow> d \<in> {Int8, Int16, Int32, Int64, Float32, Float64}"

record strong_corr =
  var1 :: string
  var2 :: string
  correlation :: fval

definition corr_step :: "stats_lib \<Rightarrow> column list \<Rightarrow> nat \<Rightarrow> nat \<Rightarrow> strong_corr list
    \<Rightarrow> strong_corr list" where
  "corr_step lib cols i j acc =
     (let corr_value = stats_corr lib (cols ! i) (cols ! j) in
      if fless (Fin 0.7) (fabs corr_value)
      then acc @ [\<lparr>var1 = cname (cols ! i), var2 = cname (cols ! j),
                    correlation = fround corr_value 3\<rparr>]
      else acc)"

definition correlation_analysis :: "stats_lib \<Rightarrow> table
    \<Rightarrow> fval list list \<times> strong_corr list" where
  "correlation_analysis lib df =
     (let numeric_cols = filter (\<lambda>c. is_np_number (dtype c)) df in
      if length numeric_cols < 2 then ([], [])
      else
        let n = length numeric_cols;
            corr_matrix = map (\<lambda>a. map (\<lambda>b. stats_corr lib a b) numeric_cols) numeric_cols
        in (corr_matrix,
            fold (\<lambda>i acc. fold (\<lambda>j acc. corr_step lib numeric_cols i j acc) [i + 1..<n] acc)
              [0..<n] []))"

text \<open>\<open>generate_insights\<close>. An insight is one of five fixed sentences with its values
  filled in; the model keeps the kind of sentence and the values.\<close>

datatype direction = SkewRight | SkewLeft

datatype insight =
    OutlierInsight string real
  | SkewInsight string direction fval
  | NormalInsight string
  | CorrInsight string string fval
  | DominantInsight string "cell option" real

definition numeric_step :: "stats_lib \<Rightarrow> table \<Rightarrow> string \<Rightarrow> insight list
    \<Rightarrow> error + insight list" where
  "numeric_step lib df col insights =
     (case distribution_analysis lib df col of
        Inl e \<Rightarrow> Inl e
      | Inr None \<Rightarrow> Inr insights
      | Inr (Some d) \<Rightarrow>
          let i1 = (if outliers_percentage d > 5
                    then insights @ [OutlierInsight col (outliers_percentage d)]
                    else insights);
              i2 = (if fless (Fin 1) (fabs (skewness d))
                    then i1 @ [SkewInsight col
                                 (if fless (Fin 0) (skewness d) then SkewRight else SkewLeft)
                                 (skewness d)]
                    else i1);
              i3 = (if is_normal d then i2 @ [NormalInsight col] else i2)
          in Inr i3)"

fun numeric_loop :: "stats_lib \<Rightarrow> table \<Rightarrow> string list \<Rightarrow> insight list
    \<Rightarrow> error + insight list" where
  "numeric_loop lib df [] insights = Inr insights"
| "numeric_loop lib df (col # cols) insights =
     (case numeric_step lib df col insights of
        Inl e \<Rightarrow> Inl e
      | Inr insights' \<Rightarrow> numeric_loop lib df cols insights')"

definition corr_loop :: "strong_corr list \<Rightarrow> insight list \<Rightarrow> insight list" where
  "corr_loop cs insights =
     fold (\<lambda>c acc. acc @ [CorrInsight (var1 c) (var2 c) (correlation c)]) cs insights"

definition categorical_step :: "table \<Rightarrow> string \<Rightarrow> insight list \<Rightarrow> error + insight list" where
  "categorical_step df col insights =
     (case categorical_analysis df col of
        Inl e \<Rightarrow> Inl e
      | Inr None \<Rightarrow> Inr insights
      | Inr (Some c) \<Rightarrow>
          if most_common_pct c > 50
          then Inr (insights @ [DominantInsight col (most_common c) (most_common_pct c)])
          else Inr insights)"

fun categorical_loop :: "table \<Rightarrow> string list \<Rightarrow> insight list \<Rightarrow> error + insight list" where
  "categorical_loop df [] insights = Inr insights"
| "categorical_loop df (col # cols) insights =
     (case categorical_step df col insights of
        Inl e \<Rightarrow> Inl e
      | Inr insights' \<Rightarrow> categorical_loop df cols insights')"

definition generate_insights :: "stats_lib \<Rightarrow> table \<Rightarrow> column_types
    \<Rightarrow> error + insight list" where
  "generate_insights lib df ct =
     (case numeric_loop lib df (take 5 (numeric ct)) [] of
        Inl e \<Rightarrow> Inl e
      | Inr insights \<Rightarrow>
          let strong = snd (correlation_analysis lib df);
              insights = corr_loop (take 3 strong) insights
          in categorical_loop df (take 3 (categorical ct)) insights)"

text \<open>\<open>descriptive_statistics\<close>: one row per integer or floating column. The mean and
  the sample standard deviation skip missing values; the division of the coefficient of
  variation is a floating-point division.\<close>

definition mean_f :: "real list \<Rightarrow> fval" where
  "mean_f xs = (if xs = [] then NaN else Fin (sum_list xs / real (length xs)))"

definition std_f :: "real list \<Rightarrow> fval" where
  "std_f xs =
     (if length xs < 2 then NaN
      else let m = sum_list xs / real (length xs) in
           Fin (sqrt (sum_list (map (\<lambda>x. (x - m)\<^sup>2) xs) / real (length xs - 1))))"

definition quantile_f :: "real list \<Rightarrow> real \<Rightarrow> fval" where
  "quantile_f xs q = (if xs = [] then NaN else Fin (quantile xs q))"

record desc_row =
  ds_name :: string
  ds_count :: nat
  ds_mean :: fval
  ds_std :: fval
  ds_min :: fval
  ds_q25 :: fval
  ds_q50 :: fval
  ds_q75 :: fval
  ds_max :: fval
  ds_median :: fval
  ds_skewness :: fval
  ds_kurtosis :: fval
  ds_cv :: fval

definition describe_col :: "stats_lib \<Rightarrow> column \<Rightarrow> desc_row" where
  "describe_col lib s =
     (let data = dropna s in
      \<lparr>ds_name = cname s,
       ds_count = length data,
       ds_mean = mean_f data,
       ds_std = std_f data,
       ds_min = quantile_f data 0,
       ds_q25 = quantile_f data 0.25,
       ds_q50 = quantile_f data 0.5,
       ds_q75 = quantile_f data 0.75,
       ds_max = quantile_f data 1,
       ds_median = (case median_of data of None \<Rightarrow> NaN | Some m \<Rightarrow> Fin m),
       ds_skewness = pd_skew lib data,
       ds_kurtosis = pd_kurt lib data,
       ds_cv = fround (fmul (fdiv (std_f data) (mean_f data)) 100) 2\<rparr>)"

definition descriptive_statistics :: "stats_lib \<Rightarrow> table \<Rightarrow> desc_row list" where
  "descriptive_statistics lib df =
     (let numeric_cols = filter (\<lambda>c. is_np_number (dtype c)) df in
      if length numeric_cols = 0 then [] else map (describe_col lib) numeric_cols)"

section \<open>The loop bodies as functions of one column\<close>

text \<open>Each loop of the cleaner reads one column and assigns it back under the same name.
  The functions below are the loop bodies as functions of that column; the lemmas of the
  next sections prove that the loops compute them, column by column.\<close>

definition fill_col :: "column \<Rightarrow> column" where
  "fill_col s =
     (if isnull_sum s > 0
      then (if is_numeric_dtype (dtype s) then fillna s (median s)
            else if dtype s = Object
            then (if length (mode s) > 0 then fillna s (mode s ! 0)
                  else fillna s (StrV ''Unknown''))
            else s)
      else s)"

definition opt_ok :: "column \<Rightarrow> bool" where
  "opt_ok s \<longleftrightarrow> \<not> (dtype s = Object \<and> cells s = [])"

definition opt_col :: "column \<Rightarrow> column" where
  "opt_col s =
     (if dtype s = Int64
      then (if gt (col_min s) (iinfo_min 8) \<and> lt (col_max s) (iinfo_max 8)
            then astype s Int8
            else if gt (col_min s) (iinfo_min 16) \<and> lt (col_max s) (iinfo_max 16)
            then astype s Int16
            else if gt (col_min s) (iinfo_min 32) \<and> lt (col_max s) (iinfo_max 32)
            then astype s Int32
            else s)
      else if dtype s = Float64 then astype s Float32
      else if dtype s = Object \<and> real (nunique s) / real (length (cells s)) < 0.5
      then astype s Category
      else s)"

datatype category = Numeric | Categorical | Datetime | Text

definition classify :: "(cell \<Rightarrow> bool) \<Rightarrow> nat \<Rightarrow> column \<Rightarrow> category option" where
  "classify parses n s =
     (if dtype s = Object \<and> to_datetime_ok parses s then Some Datetime
      else if is_numeric_dtype (dtype s) then Some Numeric
      else if dtype s = Object
      then (if real (nunique s) / real n < 0.05 \<or> nunique s < 20
            then Some Categorical else Some Text)
      else None)"

fun add_name :: "category option \<Rightarrow> string \<Rightarrow> column_types \<Rightarrow> column_types" where
  "add_name (Some Numeric) col ct = ct\<lparr>numeric := numeric ct @ [col]\<rparr>"
| "add_name (Some Categorical) col ct = ct\<lparr>categorical := categorical ct @ [col]\<rparr>"
| "add_name (Some Datetime) col ct = ct\<lparr>datetime := datetime ct @ [col]\<rparr>"
| "add_name (Some Text) col ct = ct\<lparr>text_cols := text_cols ct @ [col]\<rparr>"
| "add_name None col ct = ct"

definition class_ok :: "(cell \<Rightarrow> bool) \<Rightarrow> nat \<Rightarrow> column \<Rightarrow> bool" where
  "class_ok parses n s \<longleftrightarrow> \<not> (dtype s = Object \<and> \<not> to_datetime_ok parses s \<and> n = 0)"

definition names_of :: "(cell \<Rightarrow> bool) \<Rightarrow> table \<Rightarrow> category \<Rightarrow> string list" where
  "names_of parses df k =
     map cname (filter (\<lambda>s. classify parses (nrows df) s = Some k) df)"

section \<open>The statements of the specification\<close>

text \<open>The value the specification imputes: the median of a numeric column, the most
  frequent value of a text column, \<open>Unknown\<close> for a text column with no value at all.\<close>

definition imputed_value :: "column \<Rightarrow> cell" where
  "imputed_value s =
     (if is_numeric_dtype (dtype s) then median s
      else if mode s = [] then StrV ''Unknown'' else hd (mode s))"

definition imputable :: "column \<Rightarrow> bool" where
  "imputable s \<longleftrightarrow> is_numeric_dtype (dtype s) \<and> dropna s \<noteq> [] \<or> dtype s = Object"

text \<open>The number of rows that repeat an earlier row in every column.\<close>

definition fully_duplicate_rows :: "table \<Rightarrow> nat" where
  "fully_duplicate_rows df =
     length (filter (\<lambda>i. list_ex (\<lambda>j. row df j = row df i) [0..<i]) [0..<nrows df])"

text \<open>The narrowing of an integer column: the first of the widths 8, 16, 32 whose signed
  range holds every value of the column, the bounds of the range excluded
  (\<open>narrow_target\<close>, what the comparisons of the code decide) or included
  (\<open>claimed_target\<close>, what the specification says).\<close>

definition fits_strictly :: "nat \<Rightarrow> column \<Rightarrow> bool" where
  "fits_strictly w s \<longleftrightarrow>
     int_vals s \<noteq> [] \<and> list_all (\<lambda>v. iinfo_min w < v \<and> v < iinfo_max w) (int_vals s)"

definition narrow_target :: "column \<Rightarrow> storage" where
  "narrow_target s =
     (if fits_strictly 8 s then Int8 else if fits_strictly 16 s then Int16
      else if fits_strictly 32 s then Int32 else Int64)"

definition fits_inclusive :: "nat \<Rightarrow> column \<Rightarrow> bool" where
  "fits_inclusive w s \<longleftrightarrow>
     int_vals s \<noteq> [] \<and> list_all (\<lambda>v. iinfo_min w \<le> v \<and> v \<le> iinfo_max w) (int_vals s)"

definition claimed_target :: "column \<Rightarrow> storage" where
  "claimed_target s =
     (if fits_inclusive 8 s then Int8 else if fits_inclusive 16 s then Int16
      else if fits_inclusive 32 s then Int32 else Int64)"

text \<open>The insights in the order of the specification: per numeric column, per strong
  pair, per categorical column.\<close>

definition numeric_insights :: "stats_lib \<Rightarrow> table \<Rightarrow> string \<Rightarrow> insight list" where
  "numeric_insights lib df col =
     (case distribution_analysis lib df col of
        Inr (Some d) \<Rightarrow>
          (if outliers_percentage d > 5 then [OutlierInsight col (outliers_percentage d)]
           else []) @
          (if fless (Fin 1) (fabs (skewness d))
           then [SkewInsight col (if fless (Fin 0) (skewness d) then SkewRight else SkewLeft)
                   (skewness d)]
           else []) @
          (if is_normal d then [NormalInsight col] else [])
      | _ \<Rightarrow> [])"

definition strong_pairs :: "stats_lib \<Rightarrow> table \<Rightarrow> strong_corr list" where
  "strong_pairs lib df =
     (let cols = filter (\<lambda>c. is_np_number (dtype c)) df; n = length cols in
      map (\<lambda>(i, j). \<lparr>var1 = cname (cols ! i), var2 = cname (cols ! j),
                      correlation = fround (stats_corr lib (cols ! i) (cols ! j)) 3\<rparr>)
        (filter (\<lambda>(i, j). fless (Fin 0.7) (fabs (stats_corr lib (cols ! i) (cols ! j))))
           (concat (map (\<lambda>i. map (\<lambda>j. (i, j)) [i + 1..<n]) [0..<n]))))"

definition categorical_insights :: "table \<Rightarrow> string \<Rightarrow> insight list" where
  "categorical_insights df col =
     (case categorical_analysis df col of
        Inr (Some c) \<Rightarrow>
          (if most_common_pct c > 50
           then [DominantInsight col (most_common c) (most_common_pct c)] else [])
      | _ \<Rightarrow> [])"

definition insights_spec :: "stats_lib \<Rightarrow> table \<Rightarrow> column_types \<Rightarrow> insight list" where
  "insights_spec lib df ct =
     concat (map (numeric_insights lib df) (take 5 (numeric ct))) @
     map (\<lambda>c. CorrInsight (var1 c) (var2 c) (correlation c)) (take 3 (strong_pairs lib df)) @
     concat (map (categorical_insights df) (take 3 (categorical ct)))"

section \<open>Concrete parameters and tables\<close>

text \<open>A strict date parser accepting \<open>YYYY-MM-DD\<close>, a fixed-width memory footprint and a
  statistics library with constant answers, to evaluate the model on examples.\<close>

definition is_digit :: "char \<Rightarrow> bool" where
  "is_digit c \<longleftrightarrow> CHR ''0'' \<le> c \<and> c \<le> CHR ''9''"

fun iso_date :: "cell \<Rightarrow> bool" where
  "iso_date NA = True"
| "iso_date (TimeV t) = True"
| "iso_date (StrV [y1, y2, y3, y4, d1, m1, m2, d2, e1, e2]) =
     (list_all is_digit [y1, y2, y3, y4, m1, m2, e1, e2] \<and> d1 = CHR ''-'' \<and> d2 = CHR ''-'')"
| "iso_date _ = False"

fun bytes_of :: "storage \<Rightarrow> int" where
  "bytes_of Int8 = 1"
| "bytes_of Int16 = 2"
| "bytes_of Int32 = 4"
| "bytes_of Float32 = 4"
| "bytes_of Bool = 1"
| "bytes_of Category = 1"
| "bytes_of _ = 8"

definition fixed_width_mem :: "table \<Rightarrow> int" where
  "fixed_width_mem df = 128 + sum_list (map (\<lambda>c. bytes_of (dtype c) * int (length (cells c))) df)"

definition const_stats :: stats_lib where
  "const_stats =
     \<lparr>stats_skew = (\<lambda>xs. Some (Fin 2)),
      stats_kurtosis = (\<lambda>xs. Some (Fin 0)),
      stats_shapiro = (\<lambda>xs. Some (Fin (1 / 100))),
      stats_anderson = (\<lambda>xs. None),
      stats_corr = (\<lambda>a b. Fin 1),
      pd_skew = (\<lambda>xs. Fin 0),
      pd_kurt = (\<lambda>xs. Fin 0)\<rparr>"

definition tbl_dates :: table where
  "tbl_dates =
     [\<lparr>cname = ''when'', dtype = Datetime64, cells = [TimeV 1, NA, TimeV 3]\<rparr>,
      \<lparr>cname = ''amount'', dtype = Float64, cells = [FloatV 1, NA, FloatV 4]\<rparr>,
      \<lparr>cname = ''note'', dtype = Object, cells = [NA, NA, NA]\<rparr>]"

definition tbl_nan :: table where
  "tbl_nan = [\<lparr>cname = ''a'', dtype = Float64, cells = [FloatV 1, NA]\<rparr>]"

definition tbl_city :: table where
  "tbl_city =
     [\<lparr>cname = ''id'', dtype = Int64, cells = [IntV 1, IntV 2, IntV 3, IntV 4, IntV 5]\<rparr>,
      \<lparr>cname = ''city'', dtype = Object,
        cells = [StrV ''a'', StrV ''a'', StrV ''b'', StrV ''a'', StrV ''b'']\<rparr>]"

definition tbl_empty :: table where
  "tbl_empty = [\<lparr>cname = ''c'', dtype = Object, cells = []\<rparr>]"

definition col_127 :: column where
  "col_127 = \<lparr>cname = ''n'', dtype = Int64, cells = [IntV 127, IntV 5]\<rparr>"

definition col_age :: column where
  "col_age = \<lparr>cname = ''age'', dtype = Int64,
               cells = [IntV 10, IntV 12, IntV 11, IntV 13, IntV 10, IntV 1000]\<rparr>"

definition col_pm :: column where
  "col_pm = \<lparr>cname = ''x'', dtype = Float64, cells = [FloatV (- 1), FloatV 1]\<rparr>"

lemma getitem_None_iff: "getitem df col = None \<longleftrightarrow> col \<notin> set (columns df)"
  by (induction df) (auto simp: columns_def)

lemma getitem_Some_cname: "getitem df col = Some s \<Longrightarrow> cname s = col \<and> s \<in> set df"
  by (induction df) (auto split: if_splits)

lemma columns_setitem:
  "col \<in> set (columns df) \<Longrightarrow> columns (setitem df col s) = columns df"
  by (induction df) (auto simp: columns_def)

lemma setitem_same: "getitem df col = Some s \<Longrightarrow> setitem df col s = df"
  by (induction df) (auto split: if_splits)

lemma getitem_append_fresh:
  "col \<notin> set (columns pre) \<Longrightarrow> getitem (pre @ post) col = getitem post col"
  by (induction pre) (auto simp: columns_def)

lemma setitem_append_fresh:
  "col \<notin> set (columns pre) \<Longrightarrow> setitem (pre @ c # post) col s
     = pre @ setitem (c # post) col s"
  by (induction pre) (auto simp: columns_def)

lemma getitem_setitem_same: "getitem (setitem df col s) col = Some (s\<lparr>cname := col\<rparr>)"
  by (induction df) auto

lemma getitem_setitem_other: "c \<noteq> col \<Longrightarrow> getitem (setitem df col s) c = getitem df c"
  by (induction df) auto

lemma cname_fill_col: "cname (fill_col s) = cname s"
  by (simp add: fill_col_def fillna_def)

lemma fill_col_upd: "(fill_col s)\<lparr>cname := cname s\<rparr> = fill_col s"
proof -
  have "(fill_col s)\<lparr>cname := cname (fill_col s)\<rparr> = fill_col s" by simp
  then show ?thesis by (simp only: cname_fill_col)
qed

lemma handle_missing_step_eq:
  "handle_missing_step col df =
     (case getitem df col of None \<Rightarrow> df | Some s \<Rightarrow> setitem df col (fill_col s))"
  by (auto simp: handle_missing_step_def fill_col_def setitem_same split: option.splits)

lemma fold_handle_missing_step:
  "distinct (columns (pre @ post)) \<Longrightarrow>
   fold handle_missing_step (columns post) (pre @ post) = pre @ map fill_col post"
proof (induction post arbitrary: pre)
  case Nil
  then show ?case by (simp add: columns_def)
next
  case (Cons c post)
  have fresh: "cname c \<notin> set (columns pre)"
    using Cons.prems by (auto simp: columns_def)
  have step: "handle_missing_step (cname c) (pre @ c # post) = (pre @ [fill_col c]) @ post"
    using fresh
    by (simp add: handle_missing_step_eq getitem_append_fresh setitem_append_fresh
        fill_col_upd)
  have d: "distinct (columns ((pre @ [fill_col c]) @ post))"
    using Cons.prems by (simp add: columns_def cname_fill_col)
  show ?case
    using Cons.IH[OF d] step by (simp add: columns_def)
qed

lemma handle_missing_values_map:
  "distinct (columns df) \<Longrightarrow> handle_missing_values df = map fill_col df"
  using fold_handle_missing_step[of "[]" df] by (simp add: handle_missing_values_def)


lemma columns_setitem_Some:
  "getitem df col = Some s \<Longrightarrow> columns (setitem df col s') = columns df"
  by (induction df) (auto simp: columns_def split: if_splits)

lemma columns_handle_missing_step: "columns (handle_missing_step col df) = columns df"
  by (auto simp: handle_missing_step_eq columns_setitem_Some split: option.splits)

lemma columns_fold_handle_missing:
  "columns (fold handle_missing_step cols df) = columns df"
  by (induction cols arbitrary: df) (simp_all add: columns_handle_missing_step)

lemma columns_handle_missing_values: "columns (handle_missing_values df) = columns df"
  by (simp add: handle_missing_values_def columns_fold_handle_missing)

lemma columns_drop_duplicates: "columns (drop_duplicates df) = columns df"
  by (simp add: drop_duplicates_def columns_def comp_def)

lemma columns_optimize_step:
  "optimize_step col df = Inr df' \<Longrightarrow> columns df' = columns df"
  by (auto simp: optimize_step_def Let_def columns_setitem_Some
      split: option.splits if_splits)

lemma columns_optimize_loop:
  "optimize_loop cols df = Inr df' \<Longrightarrow> columns df' = columns df"
proof (induction cols arbitrary: df)
  case Nil
  then show ?case by simp
next
  case (Cons col cols)
  then show ?case
    by (auto split: sum.splits dest: columns_optimize_step)
qed

lemma optimize_dtypes_Inr:
  "optimize_dtypes mem df = Inr (df', r) \<Longrightarrow> optimize_loop (columns df) df = Inr df'"
  by (auto simp: optimize_dtypes_def Let_def split: sum.splits)

lemma auto_clean_Inr:
  assumes "auto_clean parses mem df = Inr (df', rep)"
  shows "\<exists>r. optimize_dtypes mem (remove_duplicates (handle_missing_values df)) = Inr (df', r)"
    and "duplicates_removed rep =
           int (nrows (handle_missing_values df))
           - int (nrows (drop_duplicates (handle_missing_values df)))"
    and "detect_column_types parses df' = Inr (column_types rep)"
    and "final_shape rep = (nrows df', length (columns df'))"
  using assms
  by (auto simp: auto_clean_def Let_def split: sum.splits prod.splits)


section \<open>C10: the cleaned table keeps the columns\<close>

text \<open>Claim C10. When \<open>auto_clean\<close> returns, the cleaned table has the column names of
  the input in the same order, and so has the table after each of the three steps that
  build it: imputation, deduplication and type narrowing never add, drop or reorder a
  column.\<close>

theorem auto_clean_keeps_columns:
  assumes "auto_clean parses mem df = Inr (df', rep)"
  shows "columns (handle_missing_values df) = columns df
       \<and> columns (remove_duplicates (handle_missing_values df)) = columns df
       \<and> columns df' = columns df"
proof -
  obtain r where "optimize_dtypes mem (remove_duplicates (handle_missing_values df)) = Inr (df', r)"
    using auto_clean_Inr(1)[OF assms] by blast
  then have "columns df' = columns (remove_duplicates (handle_missing_values df))"
    by (intro columns_optimize_loop) (rule optimize_dtypes_Inr)
  then show ?thesis
    by (simp add: remove_duplicates_def columns_drop_duplicates columns_handle_missing_values)
qed

theorem auto_clean_keeps_columns_witness:
  "\<exists>df' rep. auto_clean iso_date fixed_width_mem tbl_city = Inr (df', rep)
      \<and> columns df' = [''id'', ''city'']"
proof -
  have "\<not> isl (auto_clean iso_date fixed_width_mem tbl_city)"
    by code_simp
  then obtain df' rep where h: "auto_clean iso_date fixed_width_mem tbl_city = Inr (df', rep)"
    by (cases "auto_clean iso_date fixed_width_mem tbl_city") auto
  have "columns tbl_city = [''id'', ''city'']"
    by (simp add: tbl_city_def columns_def)
  with auto_clean_keeps_columns[OF h] h show ?thesis
    by simp
qed

section \<open>The narrowing loop, column by column\<close>

lemma cname_astype: "cname (astype s d) = cname s"
  by (simp add: astype_def)

lemma cname_opt_col: "cname (opt_col s) = cname s"
  by (simp add: opt_col_def cname_astype)

lemma opt_col_upd: "(opt_col s)\<lparr>cname := cname s\<rparr> = opt_col s"
proof -
  have "(opt_col s)\<lparr>cname := cname (opt_col s)\<rparr> = opt_col s" by simp
  then show ?thesis by (simp only: cname_opt_col)
qed

lemma optimize_step_eq:
  "optimize_step col df =
     (case getitem df col of None \<Rightarrow> Inl KeyError
      | Some s \<Rightarrow> if opt_ok s then Inr (setitem df col (opt_col s))
                  else Inl ZeroDivisionError)"
  by (auto simp: optimize_step_def opt_col_def opt_ok_def Let_def setitem_same
      split: option.splits)

lemma optimize_loop_map:
  "distinct (columns (pre @ post)) \<Longrightarrow>
   optimize_loop (columns post) (pre @ post) =
     (if list_all opt_ok post then Inr (pre @ map opt_col post) else Inl ZeroDivisionError)"
proof (induction post arbitrary: pre)
  case Nil
  then show ?case by (simp add: columns_def)
next
  case (Cons c post)
  have fresh: "cname c \<notin> set (columns pre)"
    using Cons.prems by (auto simp: columns_def)
  have step: "optimize_step (cname c) (pre @ c # post) =
      (if opt_ok c then Inr ((pre @ [opt_col c]) @ post) else Inl ZeroDivisionError)"
    using fresh
    by (simp add: optimize_step_eq getitem_append_fresh setitem_append_fresh opt_col_upd)
  have d: "distinct (columns ((pre @ [opt_col c]) @ post))"
    using Cons.prems by (simp add: columns_def cname_opt_col)
  show ?case
  proof (cases "opt_ok c")
    case True
    then show ?thesis
      using Cons.IH[OF d] step by (simp add: columns_def)
  next
    case False
    then show ?thesis
      using step by (simp add: columns_def)
  qed
qed

lemma optimize_dtypes_map:
  assumes "distinct (columns df)" and "optimize_dtypes mem df = Inr (df', r)"
  shows "df' = map opt_col df" and "list_all opt_ok df"
proof -
  have "optimize_loop (columns df) df = Inr df'"
    using assms(2) by (rule optimize_dtypes_Inr)
  moreover have "optimize_loop (columns df) df =
      (if list_all opt_ok df then Inr (map opt_col df) else Inl ZeroDivisionError)"
    using optimize_loop_map[of "[]" df] assms(1) by simp
  ultimately show "df' = map opt_col df" and "list_all opt_ok df"
    by (auto split: if_splits)
qed

lemma optimize_dtypes_returns:
  assumes "distinct (columns df)" and "list_all opt_ok df"
  shows "\<exists>r. optimize_dtypes mem df = Inr (map opt_col df, r)"
proof -
  have "optimize_loop (columns df) df = Inr (map opt_col df)"
    using optimize_loop_map[of "[]" df] assms by simp
  then show ?thesis
    by (simp add: optimize_dtypes_def Let_def)
qed

subsection \<open>The comparisons decide the strict fit\<close>

lemma fold_min_gt: "b < fold min vs (v::int) \<longleftrightarrow> list_all (\<lambda>x. b < x) (v # vs)"
proof -
  have "fold min vs v = Min (set (v # vs))"
    by (rule Min.set_eq_fold[symmetric])
  then show ?thesis
    by (auto simp: list_all_iff)
qed

lemma fold_max_lt: "fold max vs (v::int) < b \<longleftrightarrow> list_all (\<lambda>x. x < b) (v # vs)"
proof -
  have "fold max vs v = Max (set (v # vs))"
    by (rule Max.set_eq_fold[symmetric])
  then show ?thesis
    by (auto simp: list_all_iff)
qed

lemma fits_strictly_iff:
  "fits_strictly w s \<longleftrightarrow> gt (col_min s) (iinfo_min w) \<and> lt (col_max s) (iinfo_max w)"
proof (cases "int_vals s")
  case Nil
  then show ?thesis
    by (simp add: fits_strictly_def gt_def lt_def col_min_def col_max_def)
next
  case (Cons v vs)
  then show ?thesis
    by (auto simp: fits_strictly_def gt_def lt_def col_min_def col_max_def fold_min_gt
        fold_max_lt list_all_iff)
qed

lemma wrap_id:
  assumes "0 < w" and "iinfo_min w < i" and "i < iinfo_max w"
  shows "wrap w i = i"
proof -
  have p: "(2::int) ^ w = 2 * 2 ^ (w - 1)"
    using assms(1) by (cases w) simp_all
  have "0 \<le> i + 2 ^ (w - 1)" and "i + 2 ^ (w - 1) < 2 ^ w"
    using assms(2,3) p by (simp_all add: iinfo_min_def iinfo_max_def)
  then have "(i + 2 ^ (w - 1)) mod 2 ^ w = i + 2 ^ (w - 1)"
    by simp
  then show ?thesis
    by (simp add: wrap_def)
qed

lemma int_vals_mem:
  "IntV i \<in> set cs \<Longrightarrow>
   i \<in> set (List.map_filter (\<lambda>x. case x of IntV i \<Rightarrow> Some i | _ \<Rightarrow> None) cs)"
  by (induction cs) (auto split: cell.splits)

lemma cast_cells_id:
  assumes "fits_strictly w s" and "0 < w"
    and "\<And>i. cast_cell d (IntV i) = IntV (wrap w i)"
    and "\<And>c. (\<forall>i. c \<noteq> IntV i) \<Longrightarrow> cast_cell d c = c"
  shows "map (cast_cell d) (cells s) = cells s"
proof -
  have "cast_cell d c = c" if "c \<in> set (cells s)" for c
  proof (cases c)
    case (IntV i)
    then have "i \<in> set (int_vals s)"
      using that int_vals_mem by (simp add: int_vals_def)
    then have "iinfo_min w < i \<and> i < iinfo_max w"
      using assms(1) by (auto simp: fits_strictly_def list_all_iff)
    then show ?thesis
      using IntV assms(2,3) by (simp add: wrap_id)
  qed (simp_all add: assms(4))
  then show ?thesis
    by (simp add: map_idI)
qed

lemma astype_narrow:
  assumes "fits_strictly w s" and "(w, d) \<in> {(8, Int8), (16, Int16), (32, Int32)}"
  shows "astype s d = s\<lparr>dtype := d\<rparr>"
proof -
  have "map (cast_cell d) (cells s) = cells s"
  proof (rule cast_cells_id[OF assms(1)])
    show "0 < w" using assms(2) by auto
    show "cast_cell d (IntV i) = IntV (wrap w i)" for i
      using assms(2) by auto
    show "cast_cell d c = c" if "\<forall>i. c \<noteq> IntV i" for c
      using that assms(2) by (cases c) auto
  qed
  then show ?thesis
    by (simp add: astype_def)
qed

lemma opt_col_int64:
  assumes "dtype s = Int64"
  shows "opt_col s = s\<lparr>dtype := narrow_target s\<rparr>"
proof -
  have keep: "s\<lparr>dtype := Int64\<rparr> = s"
    using assms by (metis column.surjective column.update_convs(2))
  show ?thesis
    using assms keep
    by (simp add: opt_col_def narrow_target_def fits_strictly_iff[symmetric] astype_narrow)
qed

lemma getitem_map:
  assumes "\<And>c. cname (f c) = cname c"
  shows "getitem (map f df) col = map_option f (getitem df col)"
  by (induction df) (simp_all add: assms)

section \<open>C6: narrowing of integer columns\<close>

text \<open>Claim C6, as stated, fails: a column whose maximum is 127, the upper bound of the
  8-bit range, is cast to 16 bits, where the claim (bounds included) says 8 bits.\<close>

theorem narrowing_boundary_counterexample:
  "map dtype (fst (projr (optimize_dtypes fixed_width_mem [col_127]))) = [Int16]
   \<and> claimed_target col_127 = Int8"
  by code_simp

text \<open>Claim C6, amended. The type-narrowing step casts every 64-bit integer column to the
  first of the widths 8, 16 and 32 bits whose signed range holds the column's values
  strictly inside its two bounds (\<open>narrow_target\<close>); a column that fits none of them so,
  and a column with no row, keeps its 64-bit storage; the cast changes no value.\<close>

theorem narrowing_strict_fit:
  assumes "distinct (columns df)"
    and "optimize_dtypes mem df = Inr (df', r)"
    and "getitem df col = Some s"
    and "dtype s = Int64"
  shows "getitem df' col = Some (s\<lparr>dtype := narrow_target s\<rparr>)"
proof -
  have "df' = map opt_col df"
    using optimize_dtypes_map(1)[OF assms(1,2)] .
  then have "getitem df' col = map_option opt_col (getitem df col)"
    by (simp add: getitem_map cname_opt_col)
  then show ?thesis
    using assms(3,4) by (simp add: opt_col_int64)
qed

theorem narrowing_strict_fit_witness:
  "distinct (columns [col_127]) \<and> getitem [col_127] ''n'' = Some col_127
   \<and> dtype col_127 = Int64 \<and> narrow_target col_127 = Int16
   \<and> (\<exists>df' r. optimize_dtypes fixed_width_mem [col_127] = Inr (df', r)
        \<and> getitem df' ''n'' = Some (col_127\<lparr>dtype := Int16\<rparr>))"
proof -
  have d: "distinct (columns [col_127])"
    by (simp add: columns_def)
  have g: "getitem [col_127] ''n'' = Some col_127"
    by (simp add: col_127_def)
  have t: "dtype col_127 = Int64"
    by (simp add: col_127_def)
  have n: "narrow_target col_127 = Int16"
    by code_simp
  have "\<not> isl (optimize_dtypes fixed_width_mem [col_127])"
    by code_simp
  then obtain df' r where h: "optimize_dtypes fixed_width_mem [col_127] = Inr (df', r)"
    by (cases "optimize_dtypes fixed_width_mem [col_127]") auto
  from narrowing_strict_fit[OF d h g t] h d g t n show ?thesis
    by simp
qed

end
